theory Spec2Isabelle
  imports Complex_Main
begin

section \<open>Data model\<close>

text \<open>
  The simulator of \<^verbatim>\<open>classic_universe.py\<close> (and of its near-duplicate
  \<^verbatim>\<open>Python Models/butterfly_effect.py\<close>) keeps every body as a mutable Python object
  that several collections may reference. A body object is a cell of an explicit store,
  addressed by a reference; collections hold references. Python floats are read as exact
  reals; the rounding of doubles is written out separately, for \<^verbatim>\<open>force_from\<close>, in the
  section on double-precision arithmetic.
\<close>

type_synonym ref = nat

text \<open>
  \<^verbatim>\<open>CelestialBody\<close> with its dataclass fields. The subclasses \<^verbatim>\<open>Star\<close>,
  \<^verbatim>\<open>WhiteDwarf\<close>, \<^verbatim>\<open>NeutronStar\<close>, \<^verbatim>\<open>BlackHole\<close>, \<^verbatim>\<open>Moon\<close> and \<^verbatim>\<open>Asteroid\<close> add
  nothing; \<^verbatim>\<open>Planet\<close> adds the attribute \<^verbatim>\<open>moons\<close>, a list of references, which is
  only ever read from members of a system's \<^verbatim>\<open>planets\<close>.
\<close>

record CelestialBody =
  name :: string
  mass :: real
  x :: real
  y :: real
  vx :: real
  vy :: real
  moons :: "ref list"

type_synonym heap = "ref \<Rightarrow> CelestialBody"

text \<open>\<^verbatim>\<open>Universe.G = 6.674_30e-11\<close>\<close>

definition G :: real where
  "G = 667430 / 10 ^ 16"

section \<open>Bodies: \<^verbatim>\<open>classic_universe.py\<close>\<close>

text \<open>
  \<^verbatim>\<open>CelestialBody.force_from(self, other)\<close>: it reads the two bodies and returns a pair;
  it assigns to no field.
\<close>

definition force_from :: "CelestialBody \<Rightarrow> CelestialBody \<Rightarrow> real \<times> real" where
  "force_from self other =
     (let dx = x other - x self; dy = y other - y self;
          r2 = dx * dx + dy * dy
      in if r2 < 1 / 10 ^ 10 then (0, 0)
         else let F = G * mass self * mass other / r2;
                  r = sqrt r2
              in (F * dx / r, F * dy / r))"

text \<open>\<^verbatim>\<open>CelestialBody.update(self, fx, fy, dt)\<close>, as the new contents of the cell of \<^verbatim>\<open>self\<close>.\<close>

definition update :: "CelestialBody \<Rightarrow> real \<Rightarrow> real \<Rightarrow> real \<Rightarrow> CelestialBody" where
  "update self fx fy dt =
     (if mass self \<le> 0 then self
      else let ax = fx / mass self; ay = fy / mass self;
               s1 = self\<lparr>vx := vx self + ax * dt\<rparr>;
               s2 = s1\<lparr>vy := vy s1 + ay * dt\<rparr>;
               s3 = s2\<lparr>x := x s2 + vx s2 * dt\<rparr>;
               s4 = s3\<lparr>y := y s3 + vy s3 * dt\<rparr>
           in s4)"

section \<open>Star systems: \<^verbatim>\<open>classic_universe.py\<close>\<close>

text \<open>
  \<^verbatim>\<open>StarSystem\<close>. The run never assigns to a field of a system, nor appends to one of
  its lists, so a system is a value holding references into the store.
\<close>

record StarSystem =
  ss_name :: string
  primary :: ref
  planets :: "ref list"
  asteroids :: "ref list"
  stellar_remnants :: "ref list"

text \<open>
  The first lines of \<^verbatim>\<open>integrate\<close>: a fresh list
  \<^verbatim>\<open>[self.primary] + self.planets + self.asteroids + self.stellar_remnants\<close>, extended by
  the moons of each planet in turn.
\<close>

definition bodies_of :: "StarSystem \<Rightarrow> heap \<Rightarrow> ref list" where
  "bodies_of self h =
     fold (\<lambda>planet bodies. bodies @ moons (h planet)) (planets self)
       ([primary self] @ planets self @ asteroids self @ stellar_remnants self)"

text \<open>
  The body of the inner loop at indices \<open>i\<close> and \<open>j\<close>: one call of \<^verbatim>\<open>force_from\<close>, added
  to entry \<open>i\<close> of \<^verbatim>\<open>forces\<close> and subtracted from entry \<open>j\<close>. The entries of
  \<^verbatim>\<open>forces\<close> are distinct two-element lists, here pairs. Both indices come from
  \<^verbatim>\<open>range(n)\<close> with \<open>n\<close> the length of both lists, so no access is out of range.
\<close>

definition pair_step ::
  "heap \<Rightarrow> ref list \<Rightarrow> nat \<Rightarrow> nat \<Rightarrow> (real \<times> real) list \<Rightarrow> (real \<times> real) list" where
  "pair_step h bodies i j forces =
     (case force_from (h (bodies ! i)) (h (bodies ! j)) of (fx, fy) \<Rightarrow>
        let f1 = forces[i := (fst (forces ! i) + fx, snd (forces ! i) + fy)];
            f2 = f1[j := (fst (f1 ! j) - fx, snd (f1 ! j) - fy)]
        in f2)"

text \<open>
  \<^verbatim>\<open>forces = [[0.0, 0.0] for _ in range(n)]\<close> followed by the double loop
  \<^verbatim>\<open>for i in range(n): for j in range(i + 1, n)\<close>.
\<close>

definition pairwise_forces :: "heap \<Rightarrow> ref list \<Rightarrow> (real \<times> real) list" where
  "pairwise_forces h bodies =
     (let n = length bodies
      in fold (\<lambda>i. fold (pair_step h bodies i) [i + 1 ..< n]) [0 ..< n]
           (replicate n (0, 0)))"

text \<open>
  \<^verbatim>\<open>for body, (fx, fy) in zip(bodies, forces): body.update(fx, fy, dt)\<close>. Each call
  writes the cell of \<^verbatim>\<open>body\<close>; a body listed twice is updated twice.
\<close>

definition update_all :: "ref list \<Rightarrow> (real \<times> real) list \<Rightarrow> real \<Rightarrow> heap \<Rightarrow> heap" where
  "update_all bodies forces dt h =
     fold (\<lambda>(body, (fx, fy)) h'. h'(body := update (h' body) fx fy dt)) (zip bodies forces) h"

text \<open>\<^verbatim>\<open>StarSystem.integrate(self, dt)\<close>\<close>

definition integrate :: "StarSystem \<Rightarrow> real \<Rightarrow> heap \<Rightarrow> heap" where
  "integrate self dt h =
     (let bodies = bodies_of self h;
          n = length bodies
      in if n < 2 then h
         else update_all bodies (pairwise_forces h bodies) dt h)"

section \<open>The hierarchy and the driver: \<^verbatim>\<open>classic_universe.py\<close>\<close>

text \<open>
  The containers. A galaxy's nebulae, globular clusters, quasar and central black hole
  are never read by \<^verbatim>\<open>run\<close> and are left out.
\<close>

record Galaxy =
  gal_name :: string
  star_systems :: "StarSystem list"

record GalaxyCluster =
  gc_name :: string
  galaxies :: "Galaxy list"

record SuperCluster =
  sc_name :: string
  galaxy_clusters :: "GalaxyCluster list"

record Universe =
  superclusters :: "SuperCluster list"

datatype error = IndexError | AttributeError | UnboundLocalError

text \<open>The lines that \<^verbatim>\<open>run\<close> and \<^verbatim>\<open>_random_quantum_event\<close> print.\<close>

datatype line =
    Running int
  | Measurement nat string string
  | EventFailed nat error
  | Complete nat

text \<open>
  A log of the calls made by \<^verbatim>\<open>run\<close>. It is not program state: it is there so that
  how often, and in which order, \<^verbatim>\<open>integrate\<close> and \<^verbatim>\<open>_random_quantum_event\<close> are called
  can be stated.
\<close>

datatype call = CallIntegrate StarSystem | CallQuantumEvent nat

text \<open>
  Everything a run can change: the store of bodies, the state of the module-level
  generator \<^verbatim>\<open>random\<close> (the sequence of its future draws), the printed lines, the log.
\<close>

record world =
  heap :: heap
  rng :: "nat \<Rightarrow> nat"
  out :: "line list"
  calls :: "call list"

text \<open>
  A raised exception leaves the world as it is at the raise:
  \<open>Inl (e, w)\<close> is exception \<open>e\<close> in world \<open>w\<close>.
\<close>

type_synonym 'a result = "error \<times> world + 'a"

text \<open>
  \<^verbatim>\<open>random.choice(seq)\<close>: IndexError on an empty sequence, otherwise the element at an
  index below \<^verbatim>\<open>len(seq)\<close> fixed by the next draw.
\<close>

definition choice :: "'a list \<Rightarrow> world \<Rightarrow> ('a \<times> world) result" where
  "choice seq w =
     (if seq = [] then Inl (IndexError, w)
      else Inr (seq ! (rng w 0 mod length seq), w\<lparr>rng := \<lambda>n. rng w (Suc n)\<rparr>))"

text \<open>
  The body of the \<^verbatim>\<open>try\<close> block of \<^verbatim>\<open>Universe._random_quantum_event(self, step)\<close>:
  a guarded walk down the hierarchy, each \<^verbatim>\<open>if not ...: return\<close> before the
  \<^verbatim>\<open>random.choice\<close> it protects, then the draw of the spin and the printed line.
\<close>

definition quantum_walk :: "Universe \<Rightarrow> nat \<Rightarrow> world \<Rightarrow> world result" where
  "quantum_walk self step w =
     (if superclusters self = [] then Inr w
      else (case choice (superclusters self) w of Inl e \<Rightarrow> Inl e | Inr (sc, w1) \<Rightarrow>
       (if galaxy_clusters sc = [] then Inr w1
        else (case choice (galaxy_clusters sc) w1 of Inl e \<Rightarrow> Inl e | Inr (gc, w2) \<Rightarrow>
         (if galaxies gc = [] then Inr w2
          else (case choice (galaxies gc) w2 of Inl e \<Rightarrow> Inl e | Inr (gal, w3) \<Rightarrow>
           (if star_systems gal = [] then Inr w3
            else (case choice (star_systems gal) w3 of Inl e \<Rightarrow> Inl e | Inr (ss, w4) \<Rightarrow>
             (case choice [''up'', ''down''] w4 of Inl e \<Rightarrow> Inl e | Inr (spin, w5) \<Rightarrow>
                Inr (w5\<lparr>out := out w5 @
                       [Measurement step (name (heap w5 (primary ss))) spin]\<rparr>))))))))))"

text \<open>
  \<^verbatim>\<open>Universe._random_quantum_event\<close>: the walk inside
  \<^verbatim>\<open>try: ... except (IndexError, AttributeError) as e: print(...)\<close>. Any other exception
  propagates.
\<close>

definition random_quantum_event :: "Universe \<Rightarrow> nat \<Rightarrow> world \<Rightarrow> world result" where
  "random_quantum_event self step w =
     (case quantum_walk self step (w\<lparr>calls := calls w @ [CallQuantumEvent step]\<rparr>) of
        Inl (e, w') \<Rightarrow>
          if e = IndexError \<or> e = AttributeError
          then Inr (w'\<lparr>out := out w' @ [EventFailed step e]\<rparr>)
          else Inl (e, w')
      | Inr w' \<Rightarrow> Inr w')"

text \<open>The call \<^verbatim>\<open>ss.integrate(dt)\<close> in \<^verbatim>\<open>run\<close>, logged.\<close>

definition integrate_call :: "StarSystem \<Rightarrow> real \<Rightarrow> world \<Rightarrow> world" where
  "integrate_call ss dt w =
     w\<lparr>heap := integrate ss dt (heap w), calls := calls w @ [CallIntegrate ss]\<rparr>"

text \<open>
  The four nested \<^verbatim>\<open>for\<close> loops of one step of \<^verbatim>\<open>run\<close>, over the world and the local
  counter \<^verbatim>\<open>total_systems\<close>.
\<close>

definition systems_pass :: "Universe \<Rightarrow> real \<Rightarrow> world \<times> nat \<Rightarrow> world \<times> nat" where
  "systems_pass self dt =
     fold (\<lambda>sc. fold (\<lambda>gc. fold (\<lambda>gal. fold (\<lambda>ss (w, total_systems).
             (integrate_call ss dt w, total_systems + 1))
           (star_systems gal)) (galaxies gc)) (galaxy_clusters sc)) (superclusters self)"

text \<open>
  \<^verbatim>\<open>for k in range(steps)\<close> of \<^verbatim>\<open>run\<close>, over the values of \<open>k\<close> still to come. The local
  \<^verbatim>\<open>total_systems\<close> is unbound (\<open>None\<close>) until the first iteration assigns it; every
  iteration resets it to 0 before the systems pass.
\<close>

fun run_loop ::
  "Universe \<Rightarrow> real \<Rightarrow> nat list \<Rightarrow> world \<times> nat option \<Rightarrow> (world \<times> nat option) result" where
  "run_loop self dt [] st = Inr st"
| "run_loop self dt (k # ks) (w, unused) =
     (case systems_pass self dt (w, 0) of (w1, total_systems) \<Rightarrow>
        if k mod 2 = 0
        then (case random_quantum_event self k w1 of
                Inl e \<Rightarrow> Inl e
              | Inr w2 \<Rightarrow> run_loop self dt ks (w2, Some total_systems))
        else run_loop self dt ks (w1, Some total_systems))"

text \<open>
  \<^verbatim>\<open>Universe.run(self, steps, dt)\<close>. \<^verbatim>\<open>range(steps)\<close> is empty for \<^verbatim>\<open>steps \<le> 0\<close>. The
  closing \<^verbatim>\<open>print\<close> reads \<^verbatim>\<open>total_systems\<close>, which raises UnboundLocalError when no
  iteration has bound it.
\<close>

definition run :: "Universe \<Rightarrow> int \<Rightarrow> real \<Rightarrow> world \<Rightarrow> world result" where
  "run self steps dt w =
     (case run_loop self dt [0 ..< nat steps] (w\<lparr>out := out w @ [Running steps]\<rparr>, None) of
        Inl e \<Rightarrow> Inl e
      | Inr (w1, total_systems) \<Rightarrow>
          (case total_systems of
             None \<Rightarrow> Inl (UnboundLocalError, w1)
           | Some t \<Rightarrow> Inr (w1\<lparr>out := out w1 @ [Complete t]\<rparr>)))"

section \<open>The second copy: \<^verbatim>\<open>Python Models/butterfly_effect.py\<close>\<close>

text \<open>
  The same classes, defined again in the second file. The data types are shared; each
  function of the second file is translated on its own, with the prefix \<open>bf_\<close>.
\<close>

definition bf_force_from :: "CelestialBody \<Rightarrow> CelestialBody \<Rightarrow> real \<times> real" where
  "bf_force_from self other =
     (let dx = x other - x self; dy = y other - y self;
          r2 = dx * dx + dy * dy
      in if r2 < 1 / 10 ^ 10 then (0, 0)
         else let F = G * mass self * mass other / r2;
                  r = sqrt r2
              in (F * dx / r, F * dy / r))"

definition bf_update :: "CelestialBody \<Rightarrow> real \<Rightarrow> real \<Rightarrow> real \<Rightarrow> CelestialBody" where
  "bf_update self fx fy dt =
     (if mass self \<le> 0 then self
      else let ax = fx / mass self; ay = fy / mass self;
               s1 = self\<lparr>vx := vx self + ax * dt\<rparr>;
               s2 = s1\<lparr>vy := vy s1 + ay * dt\<rparr>;
               s3 = s2\<lparr>x := x s2 + vx s2 * dt\<rparr>;
               s4 = s3\<lparr>y := y s3 + vy s3 * dt\<rparr>
           in s4)"

definition bf_pair_step ::
  "heap \<Rightarrow> ref list \<Rightarrow> nat \<Rightarrow> nat \<Rightarrow> (real \<times> real) list \<Rightarrow> (real \<times> real) list" where
  "bf_pair_step h bodies i j forces =
     (case bf_force_from (h (bodies ! i)) (h (bodies ! j)) of (fx, fy) \<Rightarrow>
        let f1 = forces[i := (fst (forces ! i) + fx, snd (forces ! i) + fy)];
            f2 = f1[j := (fst (f1 ! j) - fx, snd (f1 ! j) - fy)]
        in f2)"

definition bf_integrate :: "StarSystem \<Rightarrow> real \<Rightarrow> heap \<Rightarrow> heap" where
  "bf_integrate self dt h =
     (let bodies = fold (\<lambda>planet bodies. bodies @ moons (h planet)) (planets self)
                     ([primary self] @ planets self @ asteroids self @ stellar_remnants self);
          n = length bodies
      in if n < 2 then h
         else let forces = fold (\<lambda>i. fold (bf_pair_step h bodies i) [i + 1 ..< n]) [0 ..< n]
                             (replicate n (0, 0))
              in fold (\<lambda>(body, (fx, fy)) h'. h'(body := bf_update (h' body) fx fy dt))
                   (zip bodies forces) h)"

text \<open>
  \<^verbatim>\<open>_random_quantum_event\<close> of the second file: no guard before the first three
  \<^verbatim>\<open>random.choice\<close> calls, one guard before the fourth, and \<^verbatim>\<open>except Exception: pass\<close>
  around the whole.
\<close>

definition bf_quantum_walk :: "Universe \<Rightarrow> nat \<Rightarrow> world \<Rightarrow> world result" where
  "bf_quantum_walk self step w =
     (case choice (superclusters self) w of Inl e \<Rightarrow> Inl e | Inr (sc, w1) \<Rightarrow>
      (case choice (galaxy_clusters sc) w1 of Inl e \<Rightarrow> Inl e | Inr (gc, w2) \<Rightarrow>
       (case choice (galaxies gc) w2 of Inl e \<Rightarrow> Inl e | Inr (gal, w3) \<Rightarrow>
        (if star_systems gal = [] then Inr w3
         else (case choice (star_systems gal) w3 of Inl e \<Rightarrow> Inl e | Inr (ss, w4) \<Rightarrow>
          (case choice [''up'', ''down''] w4 of Inl e \<Rightarrow> Inl e | Inr (spin, w5) \<Rightarrow>
             Inr (w5\<lparr>out := out w5 @
                    [Measurement step (name (heap w5 (primary ss))) spin]\<rparr>)))))))"

definition bf_random_quantum_event :: "Universe \<Rightarrow> nat \<Rightarrow> world \<Rightarrow> world result" where
  "bf_random_quantum_event self step w =
     (case bf_quantum_walk self step (w\<lparr>calls := calls w @ [CallQuantumEvent step]\<rparr>) of
        Inl (e, w') \<Rightarrow> Inr w'
      | Inr w' \<Rightarrow> Inr w')"

definition bf_integrate_call :: "StarSystem \<Rightarrow> real \<Rightarrow> world \<Rightarrow> world" where
  "bf_integrate_call ss dt w =
     w\<lparr>heap := bf_integrate ss dt (heap w), calls := calls w @ [CallIntegrate ss]\<rparr>"

definition bf_systems_pass :: "Universe \<Rightarrow> real \<Rightarrow> world \<Rightarrow> world" where
  "bf_systems_pass self dt =
     fold (\<lambda>sc. fold (\<lambda>gc. fold (\<lambda>gal. fold (\<lambda>ss. bf_integrate_call ss dt)
           (star_systems gal)) (galaxies gc)) (galaxy_clusters sc)) (superclusters self)"

fun bf_run_loop :: "Universe \<Rightarrow> real \<Rightarrow> nat list \<Rightarrow> world \<Rightarrow> world result" where
  "bf_run_loop self dt [] w = Inr w"
| "bf_run_loop self dt (k # ks) w =
     (let w1 = bf_systems_pass self dt w
      in if k mod 2 = 0
         then (case bf_random_quantum_event self k w1 of
                 Inl e \<Rightarrow> Inl e
               | Inr w2 \<Rightarrow> bf_run_loop self dt ks w2)
         else bf_run_loop self dt ks w1)"

definition bf_run :: "Universe \<Rightarrow> int \<Rightarrow> real \<Rightarrow> world \<Rightarrow> world result" where
  "bf_run self steps dt w = bf_run_loop self dt [0 ..< nat steps] w"

section \<open>Vocabulary of the statements\<close>

text \<open>
  The star systems that the nested loops of \<^verbatim>\<open>run\<close> reach, in the order in which they
  reach them; a system listed twice is reached twice.
\<close>

definition reachable_systems :: "Universe \<Rightarrow> StarSystem list" where
  "reachable_systems self =
     concat (map (\<lambda>sc. concat (map (\<lambda>gc. concat (map star_systems (galaxies gc)))
       (galaxy_clusters sc))) (superclusters self))"

text \<open>The world in which a call ends, whether it returns or raises.\<close>

definition world_of :: "world result \<Rightarrow> world" where
  "world_of r = (case r of Inl (e, w) \<Rightarrow> w | Inr w \<Rightarrow> w)"

text \<open>
  Two stores hold, at every reference, bodies of the same name, mass and moons: they
  differ at most in the kinematic fields \<open>x\<close>, \<open>y\<close>, \<open>vx\<close>, \<open>vy\<close>.
\<close>

definition same_identity :: "heap \<Rightarrow> heap \<Rightarrow> bool" where
  "same_identity h h' =
     (\<forall>r. name (h' r) = name (h r) \<and> mass (h' r) = mass (h r) \<and> moons (h' r) = moons (h r))"

text \<open>The systems integrated and the step counters of the quantum events, read off a log.\<close>

fun integrations :: "call list \<Rightarrow> StarSystem list" where
  "integrations [] = []"
| "integrations (CallIntegrate ss # cs) = ss # integrations cs"
| "integrations (CallQuantumEvent k # cs) = integrations cs"

fun quantum_events :: "call list \<Rightarrow> nat list" where
  "quantum_events [] = []"
| "quantum_events (CallIntegrate ss # cs) = quantum_events cs"
| "quantum_events (CallQuantumEvent k # cs) = k # quantum_events cs"

text \<open>
  The calls that section 4.3 of the specification prescribes for the step counters \<open>ks\<close>:
  in each step every reachable system is integrated, in order, and a quantum event
  follows when the counter is even.
\<close>

definition spec_calls :: "Universe \<Rightarrow> nat list \<Rightarrow> call list" where
  "spec_calls self ks =
     concat (map (\<lambda>k. map CallIntegrate (reachable_systems self)
                        @ (if k mod 2 = 0 then [CallQuantumEvent k] else [])) ks)"

text \<open>The spin measurements among the printed lines.\<close>

fun measurements :: "line list \<Rightarrow> line list" where
  "measurements [] = []"
| "measurements (Measurement k nm spin # ls) = Measurement k nm spin # measurements ls"
| "measurements (l # ls) = measurements ls"

text \<open>
  The quantum event meets an empty collection: there is no supercluster, or the
  supercluster, galaxy cluster or galaxy that the draws of \<open>w\<close> select has no member.
\<close>

definition walk_meets_empty :: "Universe \<Rightarrow> world \<Rightarrow> bool" where
  "walk_meets_empty self w =
     (superclusters self = [] \<or>
      (let sc = superclusters self ! (rng w 0 mod length (superclusters self))
       in galaxy_clusters sc = [] \<or>
          (let gc = galaxy_clusters sc ! (rng w 1 mod length (galaxy_clusters sc))
           in galaxies gc = [] \<or>
              (let gal = galaxies gc ! (rng w 2 mod length (galaxies gc))
               in star_systems gal = []))))"

text \<open>A system with a primary and nothing else, and a universe with no supercluster.\<close>

definition lone_star :: StarSystem where
  "lone_star = \<lparr>ss_name = ''Lone-Star'', primary = 0, planets = [], asteroids = [],
                stellar_remnants = []\<rparr>"

definition empty_universe :: Universe where
  "empty_universe = \<lparr>superclusters = []\<rparr>"

section \<open>The demo universe\<close>

text \<open>
  The bodies and the hierarchy that \<^verbatim>\<open>build_demo_universe\<close> of
  \<^verbatim>\<open>classic_universe.py\<close> constructs, as concrete inputs. References are given in
  order of construction.
\<close>

definition sun :: CelestialBody where
  "sun = \<lparr>name = ''Sun-Toy'', mass = 1989 * 10 ^ 27, x = 0, y = 0, vx = 0, vy = 0, moons = []\<rparr>"

definition earth :: CelestialBody where
  "earth = \<lparr>name = ''Earth-Toy'', mass = 5972 * 10 ^ 21, x = 1496 * 10 ^ 8, y = 0,
            vx = 0, vy = 29780, moons = [2]\<rparr>"

definition moon :: CelestialBody where
  "moon = \<lparr>name = ''Moon-Toy'', mass = 7348 * 10 ^ 19, x = 1496 * 10 ^ 8 + 384 * 10 ^ 6, y = 0,
           vx = 0, vy = 29780 + 1022, moons = []\<rparr>"

definition mars :: CelestialBody where
  "mars = \<lparr>name = ''Mars-Toy'', mass = 639 * 10 ^ 21, x = 2279 * 10 ^ 8, y = 0,
           vx = 0, vy = 24077, moons = []\<rparr>"

definition ceres :: CelestialBody where
  "ceres = \<lparr>name = ''Ceres-Toy'', mass = 94 * 10 ^ 19, x = 414 * 10 ^ 9, y = 0,
            vx = 0, vy = 17882, moons = []\<rparr>"

definition white_dwarf :: CelestialBody where
  "white_dwarf = \<lparr>name = ''WD-Toy'', mass = 6 / 10 * (1989 * 10 ^ 27), x = - (5 * 10 ^ 11), y = 0,
                  vx = 0, vy = - 15000, moons = []\<rparr>"

definition neutron_star :: CelestialBody where
  "neutron_star = \<lparr>name = ''NS-Toy'', mass = 14 / 10 * (1989 * 10 ^ 27), x = 6 * 10 ^ 11, y = 0,
                   vx = 0, vy = 12000, moons = []\<rparr>"

definition demo_heap :: heap where
  "demo_heap = (\<lambda>r. sun)(1 := earth, 2 := moon, 3 := mars, 4 := ceres,
                         5 := white_dwarf, 6 := neutron_star)"

definition solar_system :: StarSystem where
  "solar_system = \<lparr>ss_name = ''Solar-System-Toy'', primary = 0, planets = [1, 3],
                   asteroids = [4], stellar_remnants = [5, 6]\<rparr>"

definition demo_universe :: Universe where
  "demo_universe =
     \<lparr>superclusters = [\<lparr>sc_name = ''Laniakea-Toy'', galaxy_clusters =
        [\<lparr>gc_name = ''Virgo-Cluster-Toy'', galaxies =
          [\<lparr>gal_name = ''MilkyWay-Toy'', star_systems = [solar_system]\<rparr>]\<rparr>]\<rparr>]\<rparr>"

text \<open>A world to start a run from: the demo store, a generator whose draws are all 0.\<close>

definition demo_world :: world where
  "demo_world = \<lparr>heap = demo_heap, rng = (\<lambda>n. 0), out = [], calls = []\<rparr>"

section \<open>Double-precision arithmetic\<close>

text \<open>
  A Python \<^verbatim>\<open>float\<close> is an IEEE 754 binary64 number and every operation rounds its
  exact result to the nearest one, ties to even. The definitions above leave the
  rounding out; the ones of this section write it out for \<^verbatim>\<open>force_from\<close>, for
  results in the normal range (no overflow to infinity, no subnormal result, no NaN).
\<close>

text \<open>
  The integer nearest to \<open>r\<close>, the even one of the two when \<open>r\<close> lies halfway.
\<close>

definition round_even :: "real \<Rightarrow> int" where
  "round_even r =
     (let f = \<lfloor>r\<rfloor>
      in if r - of_int f < 1 / 2 then f
         else if 1 / 2 < r - of_int f then f + 1
         else if even f then f else f + 1)"

text \<open>
  The double nearest to \<open>v\<close>: a significand of 53 bits, scaled by the power of two
  that the magnitude of \<open>v\<close> fixes.
\<close>

definition round_double :: "real \<Rightarrow> real" where
  "round_double v =
     (if v = 0 then 0
      else let e = \<lfloor>log 2 \<bar>v\<bar>\<rfloor> - 52
           in of_int (round_even (v / 2 powr of_int e)) * 2 powr of_int e)"


definition double_sub :: "real \<Rightarrow> real \<Rightarrow> real" where
  "double_sub a b = round_double (a - b)"

definition double_mul :: "real \<Rightarrow> real \<Rightarrow> real" where
  "double_mul a b = round_double (a * b)"

definition double_div :: "real \<Rightarrow> real \<Rightarrow> real" where
  "double_div a b = round_double (a / b)"





text \<open>
  The Sun and the Earth of the demo universe with the doubles that their decimal
  literals denote.
\<close>

definition sun_double :: CelestialBody where
  "sun_double = \<lparr>name = ''Sun-Toy'', mass = 1988999999999999901909255192576, x = 0, y = 0,
                 vx = 0, vy = 0, moons = []\<rparr>"

definition earth_double :: CelestialBody where
  "earth_double = \<lparr>name = ''Earth-Toy'', mass = 5972000000000000327155712, x = 149600000000,
                   y = 0, vx = 0, vy = 29780, moons = [2]\<rparr>"

section \<open>Properties of a single body\<close>

text \<open>
  C7. When the squared separation \<open>dx\<^sup>2 + dy\<^sup>2\<close> of two bodies is strictly below
  \<open>1e-10\<close>, \<^verbatim>\<open>force_from\<close> returns \<open>(0, 0)\<close>, whatever the two masses are.
\<close>

theorem force_from_below_threshold:
  assumes "(x other - x self) * (x other - x self)
           + (y other - y self) * (y other - y self) < 1 / 10 ^ 10"
  shows "force_from self other = (0, 0)"
  using assms by (simp add: force_from_def Let_def)

text \<open>The sun and a body of Earth's mass one micrometre away from it.\<close>

theorem force_from_below_threshold_witness:
  "(x (earth\<lparr>x := 1 / 10 ^ 6\<rparr>) - x sun) * (x (earth\<lparr>x := 1 / 10 ^ 6\<rparr>) - x sun)
   + (y (earth\<lparr>x := 1 / 10 ^ 6\<rparr>) - y sun) * (y (earth\<lparr>x := 1 / 10 ^ 6\<rparr>) - y sun) < 1 / 10 ^ 10
   \<and> force_from sun (earth\<lparr>x := 1 / 10 ^ 6\<rparr>) = (0, 0)"
  using force_from_below_threshold [of "earth\<lparr>x := 1 / 10 ^ 6\<rparr>" sun]
  by (simp add: sun_def earth_def)




text \<open>Rounding, evaluated: a value within half a unit of a 53-bit significand.\<close>

lemma round_even_unique:
  assumes "\<bar>r - of_int n\<bar> < 1 / 2"
  shows "round_even r = n"
proof -
  have "\<lfloor>r\<rfloor> = n \<or> \<lfloor>r\<rfloor> = n - 1"
    using assms by linarith
  then show ?thesis
  proof
    assume f: "\<lfloor>r\<rfloor> = n"
    then have "r - of_int \<lfloor>r\<rfloor> < 1 / 2" using assms by linarith
    then show ?thesis by (simp add: round_even_def Let_def f)
  next
    assume f: "\<lfloor>r\<rfloor> = n - 1"
    then have "1 / 2 < r - of_int \<lfloor>r\<rfloor>" using assms by linarith
    then show ?thesis by (simp add: round_even_def Let_def f)
  qed
qed

lemma round_double_nearest:
  assumes lo: "2 ^ 52 \<le> \<bar>v\<bar> / 2 powr of_int e"
    and hi: "\<bar>v\<bar> / 2 powr of_int e < 2 ^ 53"
    and near: "\<bar>v / 2 powr of_int e - of_int n\<bar> < 1 / 2"
  shows "round_double v = of_int n * 2 powr of_int e"
proof -
  have pos: "0 < 2 powr (of_int e :: real)" by simp
  have v0: "v \<noteq> 0" using lo by auto
  have "2 powr (of_int (52 + e)) = (2 ^ 52 :: real) * 2 powr of_int e"
    by (simp add: powr_add)
  moreover have "2 powr (of_int (52 + e + 1)) = (2 ^ 53 :: real) * 2 powr of_int e"
    by (simp add: powr_add)
  ultimately have "2 powr (of_int (52 + e)) \<le> \<bar>v\<bar>" "\<bar>v\<bar> < 2 powr (of_int (52 + e + 1))"
    using lo hi pos by (simp_all add: field_simps)
  then have "\<lfloor>log 2 \<bar>v\<bar>\<rfloor> = 52 + e"
    using v0 floor_log_eq_powr_iff [of "\<bar>v\<bar>" 2 "52 + e"] by simp
  then show ?thesis
    using v0 round_even_unique [OF near] by (simp add: round_double_def Let_def)
qed

lemma round_double_up:
  assumes "2 ^ 52 * 2 ^ k \<le> \<bar>v\<bar>" "\<bar>v\<bar> < 2 ^ 53 * 2 ^ k"
    "\<bar>v - of_int n * 2 ^ k\<bar> < 2 ^ k / 2"
  shows "round_double v = of_int n * 2 ^ k"
proof -
  have p: "2 powr (of_int (int k)) = (2 ^ k :: real)"
    by (simp add: powr_realpow)
  have "\<bar>v / 2 ^ k - of_int n\<bar> = \<bar>v - of_int n * 2 ^ k\<bar> / 2 ^ k"
    by (simp add: field_simps abs_divide)
  then have "\<bar>v / 2 ^ k - of_int n\<bar> < 1 / 2"
    using assms(3) by (simp add: field_simps)
  then show ?thesis
    using round_double_nearest [of v "int k" n] assms(1,2) unfolding p
    by (simp add: field_simps)
qed

lemma round_double_down:
  assumes "2 ^ 52 \<le> \<bar>v\<bar> * 2 ^ k" "\<bar>v\<bar> * 2 ^ k < 2 ^ 53"
    "\<bar>v * 2 ^ k - of_int n\<bar> < 1 / 2"
  shows "round_double v = of_int n / 2 ^ k"
proof -
  have p: "2 powr (of_int (- int k)) = 1 / (2 ^ k :: real)"
    by (simp add: powr_minus powr_realpow divide_inverse)
  show ?thesis
    using round_double_nearest [of v "- int k" n] assms unfolding p
    by simp
qed


lemma round_double_zero: "round_double 0 = 0"
  by (simp add: round_double_def)



lemma demo_bodies_as_doubles:
  "mass sun_double = round_double (mass sun)"
  "mass earth_double = round_double (mass earth)"
  "x earth_double = round_double (x earth)"
  "vy earth_double = round_double (vy earth)"
proof -
  show "mass sun_double = round_double (mass sun)"
    using round_double_up [of 48 "1989 * 10 ^ 27" 7066347507134196]
    by (simp add: sun_double_def sun_def)
  show "mass earth_double = round_double (mass earth)"
    using round_double_up [of 30 "5972 * 10 ^ 21" 5561858415603638]
    by (simp add: earth_double_def earth_def)
  show "x earth_double = round_double (x earth)"
    using round_double_down [of "1496 * 10 ^ 8" 15 4902092800000000]
    by (simp add: earth_double_def earth_def)
  show "vy earth_double = round_double (vy earth)"
    using round_double_down [of 29780 38 8185864068792320]
    by (simp add: earth_double_def earth_def)
qed

lemma double_zero [simp]:
  "double_sub 0 0 = 0" "double_mul a 0 = 0" "double_mul 0 a = 0" "double_div 0 a = 0"
  by (simp_all add: double_sub_def double_mul_def double_div_def round_double_zero)










text \<open>
  C4. \<^verbatim>\<open>update(fx, fy, dt)\<close> leaves a body of mass \<open>\<le> 0\<close> as it is. Otherwise the
  acceleration is \<open>(fx / mass, fy / mass)\<close>, the velocity becomes \<open>vx + ax * dt\<close> and
  \<open>vy + ay * dt\<close>, and the position advances by the new velocity times \<open>dt\<close>; name, mass
  and moons stay.
\<close>

theorem update_velocity_then_position:
  "update b fx fy dt =
     (if mass b \<le> 0 then b
      else b\<lparr>vx := vx b + fx / mass b * dt,
             vy := vy b + fy / mass b * dt,
             x := x b + (vx b + fx / mass b * dt) * dt,
             y := y b + (vy b + fy / mass b * dt) * dt\<rparr>)"
  by (simp add: update_def Let_def)

theorem update_velocity_then_position_witness:
  "update (sun\<lparr>mass := 0\<rparr>) 3 4 2 = sun\<lparr>mass := 0\<rparr>
   \<and> update (sun\<lparr>mass := 2\<rparr>) 3 4 2 = sun\<lparr>mass := 2, x := 6, y := 8, vx := 3, vy := 4\<rparr>"
  using update_velocity_then_position [of "sun\<lparr>mass := 0\<rparr>" 3 4 2]
        update_velocity_then_position [of "sun\<lparr>mass := 2\<rparr>" 3 4 2]
  by (simp add: sun_def)

section \<open>The two copies agree\<close>

lemma bf_force_from_eq: "bf_force_from = force_from"
  by (simp add: fun_eq_iff bf_force_from_def force_from_def)

lemma bf_update_eq: "bf_update = update"
  by (simp add: fun_eq_iff bf_update_def update_def)

lemma bf_pair_step_eq: "bf_pair_step = pair_step"
  by (simp add: fun_eq_iff bf_pair_step_def pair_step_def bf_force_from_eq)

lemma bf_integrate_eq: "bf_integrate = integrate"
  by (simp add: fun_eq_iff bf_integrate_def integrate_def bf_pair_step_eq bf_update_eq
      bodies_of_def pairwise_forces_def update_all_def Let_def)

text \<open>
  C10. \<^verbatim>\<open>force_from\<close>, \<^verbatim>\<open>update\<close> and \<^verbatim>\<open>integrate\<close> of
  \<^verbatim>\<open>Python Models/butterfly_effect.py\<close> return the same results and make the same
  changes to the store as those of \<^verbatim>\<open>classic_universe.py\<close>, on every input.
\<close>

theorem copies_agree:
  "bf_force_from A B = force_from A B
   \<and> bf_update b fx fy dt = update b fx fy dt
   \<and> bf_integrate ss dt h = integrate ss dt h"
  by (simp add: bf_force_from_eq bf_update_eq bf_integrate_eq)

section \<open>The force loop of \<^verbatim>\<open>integrate\<close>\<close>

lemma sum_list_map_update:
  fixes f :: "'a \<Rightarrow> real"
  shows "k < length xs \<Longrightarrow>
    sum_list (map f (xs[k := v])) = sum_list (map f xs) - f (xs ! k) + f v"
proof (induction xs arbitrary: k)
  case Nil
  then show ?case by simp
next
  case (Cons a xs)
  then show ?case by (cases k) simp_all
qed

lemma length_pair_step [simp]: "length (pair_step h bodies i j forces) = length forces"
  by (simp add: pair_step_def Let_def split: prod.split)

lemma length_inner_loop [simp]: "length (fold (pair_step h bodies i) js forces) = length forces"
  by (induction js arbitrary: forces) simp_all

lemma length_outer_loop [simp]:
  "length (fold (\<lambda>i. fold (pair_step h bodies i) (js i)) is forces) = length forces"
  by (induction "is" arbitrary: forces) simp_all

lemma length_pairwise_forces [simp]: "length (pairwise_forces h bodies) = length bodies"
  by (simp add: pairwise_forces_def Let_def)

text \<open>One pair changes two distinct entries by opposite amounts, so the total stays.\<close>

lemma pair_step_sum:
  assumes "i < length forces" "j < length forces" "i \<noteq> j"
  shows "sum_list (map fst (pair_step h bodies i j forces)) = sum_list (map fst forces)"
    and "sum_list (map snd (pair_step h bodies i j forces)) = sum_list (map snd forces)"
  using assms
  by (simp_all add: pair_step_def Let_def sum_list_map_update nth_list_update split: prod.split)

lemma inner_loop_sum:
  assumes "i < length forces" "\<forall>j \<in> set js. j < length forces \<and> i \<noteq> j"
  shows "sum_list (map fst (fold (pair_step h bodies i) js forces)) = sum_list (map fst forces)
       \<and> sum_list (map snd (fold (pair_step h bodies i) js forces)) = sum_list (map snd forces)"
  using assms
proof (induction js arbitrary: forces)
  case Nil
  then show ?case by simp
next
  case (Cons j js)
  then show ?case by (simp add: pair_step_sum)
qed

lemma outer_loop_sum:
  assumes "\<forall>i \<in> set is. i < length forces
             \<and> (\<forall>j \<in> set (js i). j < length forces \<and> i \<noteq> j)"
  shows "sum_list (map fst (fold (\<lambda>i. fold (pair_step h bodies i) (js i)) is forces))
           = sum_list (map fst forces)
       \<and> sum_list (map snd (fold (\<lambda>i. fold (pair_step h bodies i) (js i)) is forces))
           = sum_list (map snd forces)"
  using assms
proof (induction "is" arbitrary: forces)
  case Nil
  then show ?case by simp
next
  case (Cons i "is")
  then show ?case by (simp add: inner_loop_sum)
qed

lemma pairwise_forces_sum:
  "sum_list (map fst (pairwise_forces h bodies)) = 0
   \<and> sum_list (map snd (pairwise_forces h bodies)) = 0"
proof -
  let ?n = "length bodies"
  have "\<forall>i \<in> set [0 ..< ?n]. i < length (replicate ?n (0::real, 0::real))
          \<and> (\<forall>j \<in> set [i + 1 ..< ?n]. j < length (replicate ?n (0::real, 0::real)) \<and> i \<noteq> j)"
    by simp
  from outer_loop_sum [OF this, of h bodies]
  show ?thesis by (simp add: pairwise_forces_def Let_def sum_list_replicate)
qed

text \<open>The entry of body \<open>k\<close> after one pair, after one row, after the first \<open>m\<close> rows.\<close>

lemma pair_step_nth:
  assumes "i < length forces" "j < length forces" "i \<noteq> j" "k < length forces"
  shows "pair_step h bodies i j forces ! k =
           (if k = i then (fst (forces ! i) + fst (force_from (h (bodies ! i)) (h (bodies ! j))),
                           snd (forces ! i) + snd (force_from (h (bodies ! i)) (h (bodies ! j))))
            else if k = j then (fst (forces ! j) - fst (force_from (h (bodies ! i)) (h (bodies ! j))),
                                snd (forces ! j) - snd (force_from (h (bodies ! i)) (h (bodies ! j))))
            else forces ! k)"
  using assms by (simp add: pair_step_def Let_def nth_list_update split: prod.split)

lemma inner_loop_nth:
  assumes "i < length forces" "\<forall>j \<in> set js. j < length forces \<and> i \<noteq> j" "distinct js"
    "k < length forces"
  shows "fst (fold (pair_step h bodies i) js forces ! k) =
           (if k = i
            then fst (forces ! i) + (\<Sum>j\<leftarrow>js. fst (force_from (h (bodies ! i)) (h (bodies ! j))))
            else if k \<in> set js
            then fst (forces ! k) - fst (force_from (h (bodies ! i)) (h (bodies ! k)))
            else fst (forces ! k))
       \<and> snd (fold (pair_step h bodies i) js forces ! k) =
           (if k = i
            then snd (forces ! i) + (\<Sum>j\<leftarrow>js. snd (force_from (h (bodies ! i)) (h (bodies ! j))))
            else if k \<in> set js
            then snd (forces ! k) - snd (force_from (h (bodies ! i)) (h (bodies ! k)))
            else snd (forces ! k))"
  using assms
proof (induction js arbitrary: forces)
  case Nil
  then show ?case by simp
next
  case (Cons j js)
  have j: "j < length forces" "i \<noteq> j" "j \<notin> set js"
    using Cons.prems by auto
  have pre: "i < length (pair_step h bodies i j forces)"
    "\<forall>j' \<in> set js. j' < length (pair_step h bodies i j forces) \<and> i \<noteq> j'"
    "distinct js" "k < length (pair_step h bodies i j forces)"
    using Cons.prems by auto
  show ?case
    using Cons.IH [OF pre] j Cons.prems(1,4)
    by (auto simp add: pair_step_nth)
qed

lemma outer_loop_nth:
  assumes "m \<le> n" "k < n"
  shows "fst (fold (\<lambda>i. fold (pair_step h bodies i) [i + 1 ..< n]) [0 ..< m]
                (replicate n (0, 0)) ! k) =
           (if k < m
            then (\<Sum>j\<leftarrow>[k + 1 ..< n]. fst (force_from (h (bodies ! k)) (h (bodies ! j))))
            else 0)
           - (\<Sum>i\<leftarrow>[0 ..< min k m]. fst (force_from (h (bodies ! i)) (h (bodies ! k))))
       \<and> snd (fold (\<lambda>i. fold (pair_step h bodies i) [i + 1 ..< n]) [0 ..< m]
                (replicate n (0, 0)) ! k) =
           (if k < m
            then (\<Sum>j\<leftarrow>[k + 1 ..< n]. snd (force_from (h (bodies ! k)) (h (bodies ! j))))
            else 0)
           - (\<Sum>i\<leftarrow>[0 ..< min k m]. snd (force_from (h (bodies ! i)) (h (bodies ! k))))"
  using assms
proof (induction m)
  case 0
  then show ?case by simp
next
  case (Suc m)
  let ?prev = "fold (\<lambda>i. fold (pair_step h bodies i) [i + 1 ..< n]) [0 ..< m]
                 (replicate n (0, 0))"
  have pre: "m < length ?prev" "\<forall>j \<in> set [m + 1 ..< n]. j < length ?prev \<and> m \<noteq> j"
    "distinct [m + 1 ..< n]" "k < length ?prev"
    using Suc.prems by simp_all
  have IHk: "fst (?prev ! k) =
           (if k < m
            then (\<Sum>j\<leftarrow>[k + 1 ..< n]. fst (force_from (h (bodies ! k)) (h (bodies ! j))))
            else 0)
           - (\<Sum>i\<leftarrow>[0 ..< min k m]. fst (force_from (h (bodies ! i)) (h (bodies ! k))))"
    "snd (?prev ! k) =
           (if k < m
            then (\<Sum>j\<leftarrow>[k + 1 ..< n]. snd (force_from (h (bodies ! k)) (h (bodies ! j))))
            else 0)
           - (\<Sum>i\<leftarrow>[0 ..< min k m]. snd (force_from (h (bodies ! i)) (h (bodies ! k))))"
    using Suc.IH Suc.prems by simp_all
  have step: "fold (\<lambda>i. fold (pair_step h bodies i) [i + 1 ..< n]) [0 ..< Suc m]
                (replicate n (0, 0))
                = fold (pair_step h bodies m) [m + 1 ..< n] ?prev"
    by simp
  consider "k < m" | "k = m" | "m < k" by linarith
  then show ?case
  proof cases
    case 1
    then have "min k (Suc m) = k" "min k m = k" by simp_all
    then show ?thesis
      unfolding step using inner_loop_nth [OF pre, of h bodies] IHk 1 by simp
  next
    case 2
    then have "min k (Suc m) = m" "min k m = m" by simp_all
    then show ?thesis
      unfolding step using inner_loop_nth [OF pre, of h bodies] IHk 2 by simp
  next
    case 3
    then have "min k (Suc m) = Suc m" "min k m = m" by simp_all
    then show ?thesis
      unfolding step using inner_loop_nth [OF pre, of h bodies] IHk 3 Suc.prems by simp
  qed
qed

lemma pairwise_forces_nth:
  assumes "k < length bodies"
  shows "fst (pairwise_forces h bodies ! k) =
           (\<Sum>j\<leftarrow>[k + 1 ..< length bodies]. fst (force_from (h (bodies ! k)) (h (bodies ! j))))
           - (\<Sum>i\<leftarrow>[0 ..< k]. fst (force_from (h (bodies ! i)) (h (bodies ! k))))"
    and "snd (pairwise_forces h bodies ! k) =
           (\<Sum>j\<leftarrow>[k + 1 ..< length bodies]. snd (force_from (h (bodies ! k)) (h (bodies ! j))))
           - (\<Sum>i\<leftarrow>[0 ..< k]. snd (force_from (h (bodies ! i)) (h (bodies ! k))))"
  using outer_loop_nth [of "length bodies" "length bodies" k h bodies] assms
  by (simp_all add: pairwise_forces_def Let_def)

text \<open>
  C1. For a system whose flattened body list has \<open>n \<ge> 2\<close> entries, \<^verbatim>\<open>integrate\<close> (of
  either file) updates the bodies with a list \<^verbatim>\<open>forces\<close> of \<open>n\<close> vectors whose
  componentwise sum is \<open>(0, 0)\<close> in exact arithmetic. Each pair \<open>i < j\<close> enters once: the
  entry of body \<open>k\<close> is the sum of \<^verbatim>\<open>bodies[k].force_from(bodies[j])\<close> over \<open>j > k\<close>
  minus the sum of \<^verbatim>\<open>bodies[i].force_from(bodies[k])\<close> over \<open>i < k\<close>.
\<close>

theorem integrate_forces_sum_zero:
  assumes "2 \<le> length (bodies_of ss h)"
  shows "integrate ss dt h
           = update_all (bodies_of ss h) (pairwise_forces h (bodies_of ss h)) dt h
       \<and> bf_integrate ss dt h
           = update_all (bodies_of ss h) (pairwise_forces h (bodies_of ss h)) dt h
       \<and> length (pairwise_forces h (bodies_of ss h)) = length (bodies_of ss h)
       \<and> sum_list (map fst (pairwise_forces h (bodies_of ss h))) = 0
       \<and> sum_list (map snd (pairwise_forces h (bodies_of ss h))) = 0
       \<and> (\<forall>k < length (bodies_of ss h).
            fst (pairwise_forces h (bodies_of ss h) ! k) =
              (\<Sum>j\<leftarrow>[k + 1 ..< length (bodies_of ss h)].
                 fst (force_from (h (bodies_of ss h ! k)) (h (bodies_of ss h ! j))))
              - (\<Sum>i\<leftarrow>[0 ..< k].
                 fst (force_from (h (bodies_of ss h ! i)) (h (bodies_of ss h ! k))))
          \<and> snd (pairwise_forces h (bodies_of ss h) ! k) =
              (\<Sum>j\<leftarrow>[k + 1 ..< length (bodies_of ss h)].
                 snd (force_from (h (bodies_of ss h ! k)) (h (bodies_of ss h ! j))))
              - (\<Sum>i\<leftarrow>[0 ..< k].
                 snd (force_from (h (bodies_of ss h ! i)) (h (bodies_of ss h ! k)))))"
proof -
  have "integrate ss dt h
          = update_all (bodies_of ss h) (pairwise_forces h (bodies_of ss h)) dt h"
    using assms by (simp add: integrate_def Let_def)
  then show ?thesis
    using pairwise_forces_sum [of h "bodies_of ss h"]
    by (simp add: bf_integrate_eq pairwise_forces_nth)
qed

text \<open>The demo solar system: seven bodies; the entry of Earth, at index 1.\<close>

theorem integrate_forces_sum_zero_witness:
  "2 \<le> length (bodies_of solar_system demo_heap)
   \<and> sum_list (map fst (pairwise_forces demo_heap (bodies_of solar_system demo_heap))) = 0
   \<and> sum_list (map snd (pairwise_forces demo_heap (bodies_of solar_system demo_heap))) = 0
   \<and> 1 < length (bodies_of solar_system demo_heap)
   \<and> fst (pairwise_forces demo_heap (bodies_of solar_system demo_heap) ! 1) =
       (\<Sum>j\<leftarrow>[2 ..< 7]. fst (force_from earth (demo_heap ([0, 1, 3, 4, 5, 6, 2] ! j))))
       - fst (force_from sun earth)"
proof -
  have bodies: "bodies_of solar_system demo_heap = [0, 1, 3, 4, 5, 6, 2]"
    by (simp add: bodies_of_def solar_system_def demo_heap_def earth_def mars_def)
  have two: "2 \<le> length (bodies_of solar_system demo_heap)"
    by (simp add: bodies)
  have one: "1 < length (bodies_of solar_system demo_heap)"
    by (simp add: bodies)
  note t = integrate_forces_sum_zero [OF two, of 86400]
  from t one have "fst (pairwise_forces demo_heap (bodies_of solar_system demo_heap) ! 1) =
      (\<Sum>j\<leftarrow>[1 + 1 ..< length (bodies_of solar_system demo_heap)].
         fst (force_from (demo_heap (bodies_of solar_system demo_heap ! 1))
                (demo_heap (bodies_of solar_system demo_heap ! j))))
      - (\<Sum>i\<leftarrow>[0 ..< 1].
         fst (force_from (demo_heap (bodies_of solar_system demo_heap ! i))
                (demo_heap (bodies_of solar_system demo_heap ! 1))))"
    by blast
  then have "fst (pairwise_forces demo_heap (bodies_of solar_system demo_heap) ! 1) =
       (\<Sum>j\<leftarrow>[2 ..< 7]. fst (force_from earth (demo_heap ([0, 1, 3, 4, 5, 6, 2] ! j))))
       - fst (force_from sun earth)"
    unfolding bodies by (simp add: demo_heap_def)
  with t two one show ?thesis
    by blast
qed

section \<open>What \<^verbatim>\<open>integrate\<close> leaves alone\<close>

lemma update_keeps:
  "name (update b fx fy dt) = name b" "mass (update b fx fy dt) = mass b" "moons (update b fx fy dt) = moons b"
  by (simp_all add: update_def Let_def)

lemma fold_update_keeps:
  assumes "\<forall>r. name (h r) = name (h0 r) \<and> mass (h r) = mass (h0 r) \<and> moons (h r) = moons (h0 r)"
  shows "\<forall>r. name (fold (\<lambda>(body, (fx, fy)) h'. h'(body := update (h' body) fx fy dt)) ps h r) = name (h0 r)
   \<and> mass (fold (\<lambda>(body, (fx, fy)) h'. h'(body := update (h' body) fx fy dt)) ps h r) = mass (h0 r)
   \<and> moons (fold (\<lambda>(body, (fx, fy)) h'. h'(body := update (h' body) fx fy dt)) ps h r) = moons (h0 r)"
  using assms
proof (induction ps arbitrary: h)
  case Nil
  then show ?case by simp
next
  case (Cons p ps)
  obtain body fx fy where p: "p = (body, (fx, fy))" by (cases p) auto
  have "\<forall>r. name ((h(body := update (h body) fx fy dt)) r) = name (h0 r)
          \<and> mass ((h(body := update (h body) fx fy dt)) r) = mass (h0 r)
          \<and> moons ((h(body := update (h body) fx fy dt)) r) = moons (h0 r)"
    using Cons.prems by (simp add: update_keeps)
  from Cons.IH [OF this] show ?case by (simp add: p)
qed

lemma integrate_keeps:
  "name (integrate ss dt h r) = name (h r)" "mass (integrate ss dt h r) = mass (h r)" "moons (integrate ss dt h r) = moons (h r)"
  using fold_update_keeps [of h h dt "zip (bodies_of ss h) (pairwise_forces h (bodies_of ss h))"]
  by (simp_all add: integrate_def Let_def update_all_def)

lemma bodies_of_moons_cong:
  assumes "\<And>r. moons (h' r) = moons (h r)"
  shows "bodies_of ss h' = bodies_of ss h"
  by (simp add: bodies_of_def assms)

lemma bodies_of_integrate: "bodies_of ss (integrate ss' dt h) = bodies_of ss h"
  by (rule bodies_of_moons_cong) (rule integrate_keeps)

lemma same_identity_refl: "same_identity h h"
  by (simp add: same_identity_def)

lemma same_identity_trans: "same_identity h h' \<Longrightarrow> same_identity h' h'' \<Longrightarrow> same_identity h h''"
  by (simp add: same_identity_def)

lemma same_identity_integrate: "same_identity h (integrate ss dt h)"
  by (simp add: same_identity_def integrate_keeps)

lemma same_identity_fold_integrate:
  "same_identity h (fold (\<lambda>ss. integrate ss dt) sss h)"
proof (induction sss arbitrary: h)
  case Nil
  then show ?case by (simp add: same_identity_refl)
next
  case (Cons ss sss)
  show ?case
    using same_identity_trans [OF same_identity_integrate Cons.IH, of h ss dt] by simp
qed

lemma same_identity_funpow:
  "same_identity h (((fold (\<lambda>ss. integrate ss dt) sss) ^^ n) h)"
proof (induction n)
  case 0
  then show ?case by (simp add: same_identity_refl)
next
  case (Suc n)
  show ?case
    using same_identity_trans [OF Suc same_identity_fold_integrate] by simp
qed

text \<open>
  C9. When the flattened body list of a system (the primary, the planets, asteroids and
  stellar remnants, and every planet's moons) has fewer than two entries, \<^verbatim>\<open>integrate\<close>
  of either file returns before the force loop and leaves the store as it is, for
  every \<open>dt\<close>.
\<close>

theorem integrate_fewer_than_two_bodies:
  assumes "length (bodies_of ss h) < 2"
  shows "integrate ss dt h = h \<and> bf_integrate ss dt h = h"
  using assms by (simp add: bf_integrate_eq integrate_def Let_def)

theorem integrate_fewer_than_two_bodies_witness:
  "length (bodies_of lone_star demo_heap) < 2
   \<and> integrate lone_star 86400 demo_heap = demo_heap
   \<and> bf_integrate lone_star 86400 demo_heap = demo_heap"
  using integrate_fewer_than_two_bodies [of lone_star demo_heap 86400]
  by (simp add: bodies_of_def lone_star_def)

section \<open>The quantum event\<close>

text \<open>
  The walk of \<^verbatim>\<open>classic_universe.py\<close> never raises; the walk of
  \<^verbatim>\<open>butterfly_effect.py\<close> raises IndexError at an empty level. Neither touches the
  store, and a line is printed only when no level is empty.
\<close>

lemma quantum_walk_result:
  "\<exists>w'. quantum_walk u k w = Inr w' \<and> heap w' = heap w \<and> calls w' = calls w
      \<and> (out w' = out w \<or> (\<not> walk_meets_empty u w \<and> (\<exists>nm spin. out w' = out w @ [Measurement k nm spin])))"
  by (auto simp add: quantum_walk_def choice_def walk_meets_empty_def Let_def numeral_2_eq_2)

lemma bf_quantum_walk_result:
  "\<exists>w'. (bf_quantum_walk u k w = Inr w' \<or> bf_quantum_walk u k w = Inl (IndexError, w')) \<and> heap w' = heap w \<and> calls w' = calls w
      \<and> (out w' = out w \<or> (\<not> walk_meets_empty u w \<and> (\<exists>nm spin. out w' = out w @ [Measurement k nm spin])))"
  by (auto simp add: bf_quantum_walk_def choice_def walk_meets_empty_def Let_def numeral_2_eq_2)

lemma walk_meets_empty_calls [simp]:
  "walk_meets_empty u (w\<lparr>calls := cs\<rparr>) = walk_meets_empty u w"
  by (simp add: walk_meets_empty_def)

lemma random_quantum_event_result:
  "\<exists>w'. random_quantum_event u k w = Inr w' \<and> heap w' = heap w
      \<and> calls w' = calls w @ [CallQuantumEvent k]
      \<and> (out w' = out w \<or> (\<not> walk_meets_empty u w \<and> (\<exists>nm spin. out w' = out w @ [Measurement k nm spin])))"
  using quantum_walk_result [of u k "w\<lparr>calls := calls w @ [CallQuantumEvent k]\<rparr>"]
  by (auto simp add: random_quantum_event_def)

lemma random_quantum_event_empty:
  "walk_meets_empty u w \<Longrightarrow> \<exists>w'. random_quantum_event u k w = Inr w' \<and> heap w' = heap w
      \<and> calls w' = calls w @ [CallQuantumEvent k] \<and> out w' = out w"
  using random_quantum_event_result [of u k w] by auto

lemma bf_random_quantum_event_result:
  "\<exists>w'. bf_random_quantum_event u k w = Inr w' \<and> heap w' = heap w
      \<and> calls w' = calls w @ [CallQuantumEvent k]
      \<and> (out w' = out w \<or> (\<not> walk_meets_empty u w \<and> (\<exists>nm spin. out w' = out w @ [Measurement k nm spin])))"
  using bf_quantum_walk_result [of u k "w\<lparr>calls := calls w @ [CallQuantumEvent k]\<rparr>"]
  by (auto simp add: bf_random_quantum_event_def)

lemma bf_random_quantum_event_empty:
  "walk_meets_empty u w \<Longrightarrow> \<exists>w'. bf_random_quantum_event u k w = Inr w' \<and> heap w' = heap w
      \<and> calls w' = calls w @ [CallQuantumEvent k] \<and> out w' = out w"
  using bf_random_quantum_event_result [of u k w] by auto

section \<open>The loop of \<^verbatim>\<open>run\<close>\<close>

lemma fold_concat_lists: "fold f (concat xss) = fold (fold f) xss"
  by (induction xss) simp_all

lemma systems_pass_flat:
  "systems_pass u dt = fold (\<lambda>ss (w, total_systems). (integrate_call ss dt w, total_systems + 1)) (reachable_systems u)"
  by (simp add: systems_pass_def reachable_systems_def fold_concat_lists fold_map comp_def)

lemma bf_systems_pass_flat:
  "bf_systems_pass u dt = fold (\<lambda>ss. bf_integrate_call ss dt) (reachable_systems u)"
  by (simp add: bf_systems_pass_def reachable_systems_def fold_concat_lists fold_map comp_def)

lemma systems_fold_fst:
  "fst (fold (\<lambda>ss (w, total_systems). (integrate_call ss dt w, total_systems + 1)) sss (w, t))
     = fold (\<lambda>ss. integrate_call ss dt) sss w"
  "snd (fold (\<lambda>ss (w, total_systems). (integrate_call ss dt w, total_systems + 1)) sss (w, t))
     = t + length sss"
  by (induction sss arbitrary: w t) simp_all

lemma systems_pass_eq:
  "systems_pass u dt (w, t) = (fold (\<lambda>ss. integrate_call ss dt) (reachable_systems u) w, t + length (reachable_systems u))"
  using systems_fold_fst [of dt "reachable_systems u" w t]
  by (simp add: systems_pass_flat prod_eq_iff)

lemma integrate_calls_fold:
  "heap (fold (\<lambda>ss. integrate_call ss dt) sss w) = fold (\<lambda>ss. integrate ss dt) sss (heap w)"
  "calls (fold (\<lambda>ss. integrate_call ss dt) sss w) = calls w @ map CallIntegrate sss"
  "out (fold (\<lambda>ss. integrate_call ss dt) sss w) = out w"
  "rng (fold (\<lambda>ss. integrate_call ss dt) sss w) = rng w"
  by (induction sss arbitrary: w) (simp_all add: integrate_call_def)

lemma bf_integrate_calls_fold:
  "fold (\<lambda>ss. bf_integrate_call ss dt) sss w = fold (\<lambda>ss. integrate_call ss dt) sss w"
  by (induction sss arbitrary: w) (simp_all add: integrate_call_def bf_integrate_call_def bf_integrate_eq)

lemma bf_systems_pass_eq:
  "bf_systems_pass u dt w = fold (\<lambda>ss. integrate_call ss dt) (reachable_systems u) w"
  by (simp add: bf_systems_pass_flat bf_integrate_calls_fold)

lemma run_loop_calls:
  "\<exists>w'. run_loop u dt ks (w, t) = Inr (w', if ks = [] then t else Some (length (reachable_systems u)))
      \<and> calls w' = calls w @ spec_calls u ks
      \<and> heap w' = ((fold (\<lambda>ss. integrate ss dt) (reachable_systems u)) ^^ length ks) (heap w)"
proof (induction ks arbitrary: w t)
  case Nil
  then show ?case by (simp add: spec_calls_def)
next
  case (Cons k ks)
  let ?w1 = "fold (\<lambda>ss. integrate_call ss dt) (reachable_systems u) w"
  let ?n = "length (reachable_systems u)"
  have pass: "systems_pass u dt (w, 0) = (?w1, ?n)"
    by (simp add: systems_pass_eq)
  show ?case
  proof (cases "k mod 2 = 0")
    case True
    obtain w2 where w2: "random_quantum_event u k ?w1 = Inr w2" "heap w2 = heap ?w1"
      "calls w2 = calls ?w1 @ [CallQuantumEvent k]"
      using random_quantum_event_result [of u k ?w1] by blast
    obtain w' where w': "run_loop u dt ks (w2, Some ?n) = Inr (w', if ks = [] then Some ?n else Some ?n)"
      "calls w' = calls w2 @ spec_calls u ks"
      "heap w' = ((fold (\<lambda>ss. integrate ss dt) (reachable_systems u)) ^^ length ks) (heap w2)"
      using Cons.IH [of w2 "Some ?n"] by auto
    show ?thesis
      using True pass w2 w'
      by (simp add: integrate_calls_fold spec_calls_def funpow_swap1)
  next
    case False
    obtain w' where w': "run_loop u dt ks (?w1, Some ?n) = Inr (w', if ks = [] then Some ?n else Some ?n)"
      "calls w' = calls ?w1 @ spec_calls u ks"
      "heap w' = ((fold (\<lambda>ss. integrate ss dt) (reachable_systems u)) ^^ length ks) (heap ?w1)"
      using Cons.IH [of ?w1 "Some ?n"] by auto
    show ?thesis
      using False pass w'
      by (simp add: integrate_calls_fold spec_calls_def funpow_swap1)
  qed
qed

lemma bf_run_loop_calls:
  "\<exists>w'. bf_run_loop u dt ks w = Inr w'
      \<and> calls w' = calls w @ spec_calls u ks
      \<and> heap w' = ((fold (\<lambda>ss. integrate ss dt) (reachable_systems u)) ^^ length ks) (heap w)"
proof (induction ks arbitrary: w)
  case Nil
  then show ?case by (simp add: spec_calls_def)
next
  case (Cons k ks)
  let ?w1 = "fold (\<lambda>ss. integrate_call ss dt) (reachable_systems u) w"
  show ?case
  proof (cases "k mod 2 = 0")
    case True
    obtain w2 where w2: "bf_random_quantum_event u k ?w1 = Inr w2" "heap w2 = heap ?w1"
      "calls w2 = calls ?w1 @ [CallQuantumEvent k]"
      using bf_random_quantum_event_result [of u k ?w1] by blast
    obtain w' where w': "bf_run_loop u dt ks w2 = Inr w'"
      "calls w' = calls w2 @ spec_calls u ks"
      "heap w' = ((fold (\<lambda>ss. integrate ss dt) (reachable_systems u)) ^^ length ks) (heap w2)"
      using Cons.IH [of w2] by auto
    show ?thesis
      using True w2 w'
      by (simp add: bf_systems_pass_eq integrate_calls_fold spec_calls_def funpow_swap1)
  next
    case False
    obtain w' where w': "bf_run_loop u dt ks ?w1 = Inr w'"
      "calls w' = calls ?w1 @ spec_calls u ks"
      "heap w' = ((fold (\<lambda>ss. integrate ss dt) (reachable_systems u)) ^^ length ks) (heap ?w1)"
      using Cons.IH [of ?w1] by auto
    show ?thesis
      using False w'
      by (simp add: bf_systems_pass_eq integrate_calls_fold spec_calls_def funpow_swap1)
  qed
qed

lemma run_calls:
  assumes "0 < steps"
  shows "\<exists>w'. run u steps dt w = Inr w'
      \<and> calls w' = calls w @ spec_calls u [0 ..< nat steps]
      \<and> heap w' = ((fold (\<lambda>ss. integrate ss dt) (reachable_systems u)) ^^ nat steps) (heap w)"
proof -
  let ?w0 = "w\<lparr>out := out w @ [Running steps]\<rparr>"
  have ne: "[0 ..< nat steps] \<noteq> []" using assms by simp
  obtain w1 where w1: "run_loop u dt [0 ..< nat steps] (?w0, None) = Inr (w1, Some (length (reachable_systems u)))"
      "calls w1 = calls ?w0 @ spec_calls u [0 ..< nat steps]"
      "heap w1 = ((fold (\<lambda>ss. integrate ss dt) (reachable_systems u)) ^^ length [0 ..< nat steps]) (heap ?w0)"
    using run_loop_calls [of u dt "[0 ..< nat steps]" ?w0 None] ne by auto
  show ?thesis using w1 by (simp add: run_def)
qed

lemma bf_run_calls:
  "\<exists>w'. bf_run u steps dt w = Inr w'
      \<and> calls w' = calls w @ spec_calls u [0 ..< nat steps]
      \<and> heap w' = ((fold (\<lambda>ss. integrate ss dt) (reachable_systems u)) ^^ nat steps) (heap w)"
  using bf_run_loop_calls [of u dt "[0 ..< nat steps]" w] by (simp add: bf_run_def)

lemma run_nonpos: "steps \<le> 0 \<Longrightarrow> run u steps dt w = Inl (UnboundLocalError, w\<lparr>out := out w @ [Running steps]\<rparr>)"
  by (simp add: run_def)

lemma integrations_append: "integrations (cs @ ds) = integrations cs @ integrations ds"
  by (induction cs rule: integrations.induct) simp_all

lemma quantum_events_append: "quantum_events (cs @ ds) = quantum_events cs @ quantum_events ds"
  by (induction cs rule: quantum_events.induct) simp_all

lemma measurements_append: "measurements (ls @ ms) = measurements ls @ measurements ms"
  by (induction ls rule: measurements.induct) simp_all

lemma upt_6: "[0 ..< 6] = [0, 1, 2, 3, 4, 5]"
  by (simp add: upt_rec)

lemma spec_calls_one_system_six_steps:
  assumes "reachable_systems u = [ss]"
  shows "spec_calls u [0 ..< 6] =
           [CallIntegrate ss, CallQuantumEvent 0, CallIntegrate ss,
            CallIntegrate ss, CallQuantumEvent 2, CallIntegrate ss,
            CallIntegrate ss, CallQuantumEvent 4, CallIntegrate ss]"
  by (simp add: spec_calls_def assms upt_6)

text \<open>
  C5. When exactly one star system \<open>ss\<close> is reachable, \<^verbatim>\<open>run(steps=6, dt=86400)\<close> of
  either file returns, having called \<^verbatim>\<open>ss.integrate\<close> six times, once in each step,
  and \<^verbatim>\<open>_random_quantum_event\<close> three times, with step counters 0, 2 and 4, each after
  the systems pass of its step.
\<close>

theorem run_six_steps_one_system:
  assumes "reachable_systems u = [ss]"
  shows "(\<exists>w'. run u 6 86400 w = Inr w'
           \<and> calls w' = calls w @
               [CallIntegrate ss, CallQuantumEvent 0, CallIntegrate ss,
                CallIntegrate ss, CallQuantumEvent 2, CallIntegrate ss,
                CallIntegrate ss, CallQuantumEvent 4, CallIntegrate ss]
           \<and> integrations (calls w') = integrations (calls w) @ replicate 6 ss
           \<and> quantum_events (calls w') = quantum_events (calls w) @ [0, 2, 4]
           \<and> heap w' = (integrate ss 86400 ^^ 6) (heap w))
       \<and> (\<exists>w'. bf_run u 6 86400 w = Inr w'
           \<and> calls w' = calls w @
               [CallIntegrate ss, CallQuantumEvent 0, CallIntegrate ss,
                CallIntegrate ss, CallQuantumEvent 2, CallIntegrate ss,
                CallIntegrate ss, CallQuantumEvent 4, CallIntegrate ss]
           \<and> integrations (calls w') = integrations (calls w) @ replicate 6 ss
           \<and> quantum_events (calls w') = quantum_events (calls w) @ [0, 2, 4]
           \<and> heap w' = (bf_integrate ss 86400 ^^ 6) (heap w))"
proof -
  have six: "replicate 6 ss = [ss, ss, ss, ss, ss, ss]"
    by (simp add: numeral_eq_Suc)
  have f: "fold (\<lambda>ss. integrate ss 86400) (reachable_systems u) = integrate ss 86400"
    by (simp add: assms fun_eq_iff)
  obtain w' where w': "run u 6 86400 w = Inr w'"
      "calls w' = calls w @ spec_calls u [0 ..< nat 6]"
      "heap w' = ((fold (\<lambda>ss. integrate ss 86400) (reachable_systems u)) ^^ nat 6) (heap w)"
    using run_calls [of 6 u 86400 w] by auto
  have classic: "\<exists>w'. run u 6 86400 w = Inr w'
           \<and> calls w' = calls w @
               [CallIntegrate ss, CallQuantumEvent 0, CallIntegrate ss,
                CallIntegrate ss, CallQuantumEvent 2, CallIntegrate ss,
                CallIntegrate ss, CallQuantumEvent 4, CallIntegrate ss]
           \<and> integrations (calls w') = integrations (calls w) @ replicate 6 ss
           \<and> quantum_events (calls w') = quantum_events (calls w) @ [0, 2, 4]
           \<and> heap w' = (integrate ss 86400 ^^ 6) (heap w)"
    using w'
    by (simp add: spec_calls_one_system_six_steps [OF assms] integrations_append
        quantum_events_append six f)
  obtain v' where v': "bf_run u 6 86400 w = Inr v'"
      "calls v' = calls w @ spec_calls u [0 ..< nat 6]"
      "heap v' = ((fold (\<lambda>ss. integrate ss 86400) (reachable_systems u)) ^^ nat 6) (heap w)"
    using bf_run_calls [of u 6 86400 w] by auto
  have butterfly: "\<exists>w'. bf_run u 6 86400 w = Inr w'
           \<and> calls w' = calls w @
               [CallIntegrate ss, CallQuantumEvent 0, CallIntegrate ss,
                CallIntegrate ss, CallQuantumEvent 2, CallIntegrate ss,
                CallIntegrate ss, CallQuantumEvent 4, CallIntegrate ss]
           \<and> integrations (calls w') = integrations (calls w) @ replicate 6 ss
           \<and> quantum_events (calls w') = quantum_events (calls w) @ [0, 2, 4]
           \<and> heap w' = (bf_integrate ss 86400 ^^ 6) (heap w)"
    using v'
    by (simp add: spec_calls_one_system_six_steps [OF assms] integrations_append
        quantum_events_append six f bf_integrate_eq)
  from classic butterfly show ?thesis ..
qed

text \<open>The demo universe, whose one reachable system is the toy solar system.\<close>

theorem run_six_steps_one_system_witness:
  "reachable_systems demo_universe = [solar_system]
   \<and> (\<exists>w'. run demo_universe 6 86400 demo_world = Inr w'
         \<and> integrations (calls w') = replicate 6 solar_system
         \<and> quantum_events (calls w') = [0, 2, 4])
   \<and> (\<exists>w'. bf_run demo_universe 6 86400 demo_world = Inr w'
         \<and> integrations (calls w') = replicate 6 solar_system
         \<and> quantum_events (calls w') = [0, 2, 4])"
proof -
  have r: "reachable_systems demo_universe = [solar_system]"
    by (simp add: reachable_systems_def demo_universe_def)
  have c: "calls demo_world = []"
    by (simp add: demo_world_def)
  show ?thesis
    using run_six_steps_one_system [OF r, of demo_world] r
    unfolding c by auto
qed

section \<open>A run of zero steps\<close>

text \<open>
  C2. \<^verbatim>\<open>run\<close> with \<^verbatim>\<open>steps = 0\<close> should complete without an error. In
  \<^verbatim>\<open>classic_universe.py\<close> it does not: the loop body, which alone binds
  \<^verbatim>\<open>total_systems\<close>, never runs, and the closing \<^verbatim>\<open>print\<close> raises UnboundLocalError,
  for every universe, \<open>dt\<close> and world. The store at the raise is the initial one.
\<close>

theorem run_zero_steps_raises:
  "run u 0 dt w = Inl (UnboundLocalError, w\<lparr>out := out w @ [Running 0]\<rparr>)"
  by (simp add: run_def)

text \<open>The second file has no such \<^verbatim>\<open>print\<close>: its \<^verbatim>\<open>run\<close> returns, the world unchanged.\<close>

lemma bf_run_zero_steps: "bf_run u 0 dt w = Inr w"
  by (simp add: bf_run_def)

text \<open>With at least one step, \<^verbatim>\<open>run\<close> of either file returns.\<close>

lemma run_returns_for_positive_steps:
  "0 < steps \<Longrightarrow> \<exists>w'. run u steps dt w = Inr w'"
  using run_calls [of steps u dt w] by blast

lemma bf_run_returns: "\<exists>w'. bf_run u steps dt w = Inr w'"
  using bf_run_calls [of u steps dt w] by blast

section \<open>Empty collections\<close>

lemma reachable_empty: "superclusters u = [] \<Longrightarrow> reachable_systems u = []"
  by (simp add: reachable_systems_def)

lemma run_loop_no_superclusters:
  assumes "superclusters u = []"
  shows "\<exists>w' t'. run_loop u dt ks (w, t) = Inr (w', t') \<and> out w' = out w"
proof (induction ks arbitrary: w t)
  case Nil
  then show ?case by simp
next
  case (Cons k ks)
  have empty: "walk_meets_empty u w" for w
    by (simp add: walk_meets_empty_def assms)
  have pass: "systems_pass u dt (w, 0) = (w, 0)"
    by (simp add: systems_pass_eq reachable_empty [OF assms])
  show ?case
  proof (cases "k mod 2 = 0")
    case True
    obtain w2 where w2: "random_quantum_event u k w = Inr w2" "out w2 = out w"
      using random_quantum_event_empty [OF empty, of k w] by blast
    show ?thesis using True pass w2 Cons.IH [of w2 "Some 0"] by simp
  next
    case False
    show ?thesis using False pass Cons.IH [of w "Some 0"] by simp
  qed
qed

lemma bf_run_loop_no_superclusters:
  assumes "superclusters u = []"
  shows "\<exists>w'. bf_run_loop u dt ks w = Inr w' \<and> out w' = out w"
proof (induction ks arbitrary: w)
  case Nil
  then show ?case by simp
next
  case (Cons k ks)
  have empty: "walk_meets_empty u w" for w
    by (simp add: walk_meets_empty_def assms)
  have pass: "bf_systems_pass u dt w = w"
    by (simp add: bf_systems_pass_eq reachable_empty [OF assms])
  show ?case
  proof (cases "k mod 2 = 0")
    case True
    obtain w2 where w2: "bf_random_quantum_event u k w = Inr w2" "out w2 = out w"
      using bf_random_quantum_event_empty [OF empty, of k w] by blast
    show ?thesis using True pass w2 Cons.IH [of w2] by simp
  next
    case False
    show ?thesis using False pass Cons.IH [of w] by simp
  qed
qed

lemma integrations_spec_calls_empty:
  "reachable_systems u = [] \<Longrightarrow> integrations (spec_calls u ks) = []"
  by (induction ks) (simp_all add: spec_calls_def)

lemma run_no_superclusters:
  assumes "superclusters u = []" "0 < steps"
  shows "\<exists>w'. run u steps dt w = Inr w' \<and> heap w' = heap w
           \<and> integrations (calls w') = integrations (calls w)
           \<and> measurements (out w') = measurements (out w)"
proof -
  let ?w0 = "w\<lparr>out := out w @ [Running steps]\<rparr>"
  obtain w' where w': "run u steps dt w = Inr w'"
      "calls w' = calls w @ spec_calls u [0 ..< nat steps]"
      "heap w' = ((fold (\<lambda>ss. integrate ss dt) (reachable_systems u)) ^^ nat steps) (heap w)"
    using run_calls [OF assms(2), of u dt w] by auto
  obtain w1 t1 where w1: "run_loop u dt [0 ..< nat steps] (?w0, None) = Inr (w1, t1)" "out w1 = out ?w0"
    using run_loop_no_superclusters [OF assms(1), of dt "[0 ..< nat steps]" ?w0 None] by auto
  have "measurements (out w') = measurements (out w)"
    using w'(1) w1 by (auto simp add: run_def measurements_append split: option.splits)
  moreover have "heap w' = heap w"
    using w'(3) by (simp add: reachable_empty [OF assms(1)])
  ultimately show ?thesis
    using w' by (simp add: integrations_append integrations_spec_calls_empty reachable_empty [OF assms(1)])
qed

lemma bf_run_no_superclusters:
  assumes "superclusters u = []"
  shows "\<exists>w'. bf_run u steps dt w = Inr w' \<and> heap w' = heap w
           \<and> integrations (calls w') = integrations (calls w)
           \<and> out w' = out w"
proof -
  obtain w' where w': "bf_run u steps dt w = Inr w'"
      "calls w' = calls w @ spec_calls u [0 ..< nat steps]"
      "heap w' = ((fold (\<lambda>ss. integrate ss dt) (reachable_systems u)) ^^ nat steps) (heap w)"
    using bf_run_calls [of u steps dt w] by auto
  obtain w1 where w1: "bf_run_loop u dt [0 ..< nat steps] w = Inr w1" "out w1 = out w"
    using bf_run_loop_no_superclusters [OF assms(1), of dt "[0 ..< nat steps]" w] by auto
  have "out w' = out w"
    using w'(1) w1 by (simp add: bf_run_def)
  moreover have "heap w' = heap w"
    using w'(3) by (simp add: reachable_empty [OF assms(1)])
  ultimately show ?thesis
    using w' by (simp add: integrations_append integrations_spec_calls_empty reachable_empty [OF assms(1)])
qed

text \<open>
  A quantum event that meets an empty collection, in either file: it returns, the
  store and the printed lines are as before.
\<close>

lemma quantum_event_skipped:
  assumes "walk_meets_empty u w"
  shows "(\<exists>w'. random_quantum_event u k w = Inr w' \<and> heap w' = heap w \<and> out w' = out w)
       \<and> (\<exists>w'. bf_random_quantum_event u k w = Inr w' \<and> heap w' = heap w \<and> out w' = out w)"
  using random_quantum_event_empty [OF assms, of k] bf_random_quantum_event_empty [OF assms, of k]
  by blast

text \<open>
  C6. A quantum event that meets an empty collection is skipped and the run goes on
  (\<open>quantum_event_skipped\<close>), and a run of at least one step on a universe with no
  supercluster integrates nothing, measures nothing and returns
  (\<open>run_no_superclusters\<close>, \<open>bf_run_no_superclusters\<close>). With \<^verbatim>\<open>steps = 0\<close>, however,
  \<^verbatim>\<open>run\<close> of \<^verbatim>\<open>classic_universe.py\<close> on the universe with no supercluster fails: it
  raises UnboundLocalError.
\<close>

theorem run_empty_universe_zero_steps_raises:
  "superclusters empty_universe = []
   \<and> run empty_universe 0 86400 demo_world
       = Inl (UnboundLocalError, demo_world\<lparr>out := [Running 0]\<rparr>)"
  by (simp add: run_def empty_universe_def demo_world_def)

section \<open>What a run changes\<close>

lemma run_same_identity: "same_identity (heap w) (heap (world_of (run u steps dt w)))"
proof (cases "0 < steps")
  case True
  obtain w' where "run u steps dt w = Inr w'"
    "heap w' = ((fold (\<lambda>ss. integrate ss dt) (reachable_systems u)) ^^ nat steps) (heap w)"
    using run_calls [OF True, of u dt w] by auto
  then show ?thesis by (simp add: world_of_def same_identity_funpow)
next
  case False
  then show ?thesis by (simp add: run_nonpos world_of_def same_identity_refl)
qed

lemma demo_heap_masses: "0 \<le> mass (demo_heap r)"
  by (simp add: demo_heap_def sun_def earth_def moon_def mars_def ceres_def white_dwarf_def neutron_star_def)

text \<open>
  C8. \<^verbatim>\<open>integrate\<close>, and with it \<^verbatim>\<open>run\<close> (whether it returns or raises), changes no
  body's name, mass or list of moons; the flattened body list of every system, hence
  its primary and the members and order of its collections, is the same afterwards.
  So masses that are all non-negative before are non-negative after.
\<close>

theorem run_mutates_kinematics_only:
  "name (integrate ss dt h r) = name (h r) \<and> mass (integrate ss dt h r) = mass (h r)
   \<and> moons (integrate ss dt h r) = moons (h r)
   \<and> bodies_of ss' (integrate ss dt h) = bodies_of ss' h
   \<and> name (heap (world_of (run u steps dt w)) r) = name (heap w r)
   \<and> mass (heap (world_of (run u steps dt w)) r) = mass (heap w r)
   \<and> moons (heap (world_of (run u steps dt w)) r) = moons (heap w r)
   \<and> bodies_of ss' (heap (world_of (run u steps dt w))) = bodies_of ss' (heap w)
   \<and> ((\<forall>r'. 0 \<le> mass (h r')) \<longrightarrow> 0 \<le> mass (integrate ss dt h r))
   \<and> ((\<forall>r'. 0 \<le> mass (heap w r')) \<longrightarrow> 0 \<le> mass (heap (world_of (run u steps dt w)) r))"
proof -
  have run: "same_identity (heap w) (heap (world_of (run u steps dt w)))"
    by (rule run_same_identity)
  then have "bodies_of ss' (heap (world_of (run u steps dt w))) = bodies_of ss' (heap w)"
    by (intro bodies_of_moons_cong) (simp add: same_identity_def)
  with run show ?thesis
    by (simp add: integrate_keeps bodies_of_integrate same_identity_def)
qed

theorem run_mutates_kinematics_only_witness:
  "(\<forall>r'. 0 \<le> mass (demo_heap r'))
   \<and> 0 \<le> mass (integrate solar_system 86400 demo_heap 1)
   \<and> (\<forall>r'. 0 \<le> mass (heap demo_world r'))
   \<and> 0 \<le> mass (heap (world_of (run demo_universe 6 86400 demo_world)) 1)"
proof -
  have h1: "\<forall>r'. 0 \<le> mass (demo_heap r')"
    by (simp add: demo_heap_masses)
  have h2: "\<forall>r'. 0 \<le> mass (heap demo_world r')"
    by (simp add: demo_world_def demo_heap_masses)
  note t = run_mutates_kinematics_only
             [of solar_system 86400 demo_heap 1 solar_system demo_universe 6 demo_world]
  from t h1 have "0 \<le> mass (integrate solar_system 86400 demo_heap 1)"
    by blast
  moreover from t h2 have "0 \<le> mass (heap (world_of (run demo_universe 6 86400 demo_world)) 1)"
    by blast
  ultimately show ?thesis
    using h1 h2 by blast
qed

end
